theory Spec2Isabelle
  imports Complex_Main "HOL-Library.Char_ord" "HOL-Library.List_Lexorder" "HOL-Library.Multiset"
begin

section \<open>Strings and the regular expressions of the identifier classifier\<close>

text \<open>
  A Python \<open>str\<close> is modelled as a \<open>string\<close>; every \<open>char\<close> stands for one code point
  below 256. The character class \<open>[0-9A-Za-z_-]\<close> (written \<open>[a-zA-Z0-9_-]\<close> in the
  request handler) is \<open>idchar\<close>.
\<close>

definition idchar :: "char \<Rightarrow> bool" where
  "idchar c \<longleftrightarrow>
     c \<in> set ''0123456789ABCDEFGHIJKLMNOPQRSTUVWXYZabcdefghijklmnopqrstuvwxyz_-''"

text \<open>\<open>after p s\<close>: the literal \<open>p\<close> matched at the start of \<open>s\<close>, giving the rest.\<close>

definition after :: "string \<Rightarrow> string \<Rightarrow> string option" where
  "after p s = (if take (length p) s = p then Some (drop (length p) s) else None)"

text \<open>The group \<open>([0-9A-Za-z_-]{11})\<close> matched at the start of \<open>s\<close>.\<close>

definition id11 :: "string \<Rightarrow> string option" where
  "id11 s = (if 11 \<le> length s \<and> list_all idchar (take 11 s) then Some (take 11 s) else None)"

text \<open>
  \<open>re.search\<close>: the pattern is tried at every position from the left, the end of the
  string included; the leftmost position that matches wins.
\<close>

fun re_search :: "(string \<Rightarrow> 'a option) \<Rightarrow> string \<Rightarrow> 'a option" where
  "re_search m [] = m []"
| "re_search m (c # cs) = (case m (c # cs) of Some g \<Rightarrow> Some g | None \<Rightarrow> re_search m cs)"

text \<open>
  The four patterns of \<open>extract_video_id\<close>, each as its match at one position, giving
  group 1. In \<open>pat1\<close> the alternative \<open>v=\<close> is tried before \<open>/\<close>, and the trailing \<open>.*\<close>
  always matches. \<open>pat4\<close> is anchored by \<open>^\<close>, so it is tried at position 0 only; \<open>$\<close>
  matches at the end of the string and before a newline that ends the string.
\<close>

definition pat1 :: "string \<Rightarrow> string option" where
  "pat1 s = (case Option.bind (after ''v='' s) id11 of
               Some g \<Rightarrow> Some g
             | None \<Rightarrow> Option.bind (after ''/'' s) id11)"

definition pat2 :: "string \<Rightarrow> string option" where
  "pat2 s = Option.bind (after ''embed/'' s) id11"

definition pat3 :: "string \<Rightarrow> string option" where
  "pat3 s = Option.bind (after ''watch?v='' s) id11"

definition at_dollar :: "string \<Rightarrow> bool" where
  "at_dollar s \<longleftrightarrow> s = [] \<or> s = [CHR 0x0A]"

definition pat4 :: "string \<Rightarrow> string option" where
  "pat4 s = (case id11 s of
               Some g \<Rightarrow> (if at_dollar (drop 11 s) then Some g else None)
             | None \<Rightarrow> None)"

fun first_match :: "(string \<Rightarrow> string option) list \<Rightarrow> string \<Rightarrow> string option" where
  "first_match [] url = None"
| "first_match (p # ps) url = (case p url of Some g \<Rightarrow> Some g | None \<Rightarrow> first_match ps url)"

definition extract_video_id :: "string \<Rightarrow> string option" where
  "extract_video_id url =
     first_match [re_search pat1, re_search pat2, re_search pat3, pat4] url"

text \<open>
  \<open>re.match\<close> with the patterns of \<open>is_youtube_url\<close>: a matcher takes the continuation
  that must match the rest, so an optional group that matched can still be given up.
\<close>

type_synonym matcher = "(string \<Rightarrow> bool) \<Rightarrow> string \<Rightarrow> bool"

definition lit :: "string \<Rightarrow> matcher" where
  "lit p k s = (case after p s of Some r \<Rightarrow> k r | None \<Rightarrow> False)"

definition opt :: "matcher \<Rightarrow> matcher" where
  "opt m k s \<longleftrightarrow> m k s \<or> k s"

definition seq :: "matcher \<Rightarrow> matcher \<Rightarrow> matcher" where
  "seq a b k = a (b k)"

definition re_match :: "matcher \<Rightarrow> string \<Rightarrow> bool" where
  "re_match m s = m (\<lambda>_. True) s"

text \<open>\<open>(?:https?:\/\/)?(?:www\.)?\<close>, the common head of the four URL patterns.\<close>

definition url_head :: matcher where
  "url_head = seq (opt (seq (lit ''http'') (seq (opt (lit ''s'')) (lit ''://''))))
                  (opt (lit ''www.''))"

definition youtube_patterns :: "matcher list" where
  "youtube_patterns =
     [seq url_head (lit ''youtube.com/watch?v=''),
      seq url_head (lit ''youtu.be/''),
      seq url_head (lit ''youtube.com/embed/''),
      seq url_head (lit ''youtube.com/v/'')]"

definition is_youtube_url :: "string \<Rightarrow> bool" where
  "is_youtube_url url = list_ex (\<lambda>p. re_match p url) youtube_patterns"

definition watch_url :: "string \<Rightarrow> string" where
  "watch_url video_id = ''https://www.youtube.com/watch?v='' @ video_id"

text \<open>
  \<open>normalize_url(url, video_id=None)\<close>; \<open>if video_id:\<close> holds for a string that is
  neither \<open>None\<close> nor empty.
\<close>

definition truthy_str :: "string option \<Rightarrow> bool" where
  "truthy_str v = (case v of None \<Rightarrow> False | Some s \<Rightarrow> s \<noteq> [])"

definition normalize_url :: "string \<Rightarrow> string option \<Rightarrow> string" where
  "normalize_url url video_id =
     (if truthy_str video_id then watch_url (the video_id)
      else if is_youtube_url url then
        (let video_id' = extract_video_id url
         in if truthy_str video_id' then watch_url (the video_id') else url)
      else url)"

text \<open>
  The classification made by the \<open>/youtube\<close> handler (and, with the same two tests, by
  \<open>get_details\<close>): \<open>is_video_id\<close> is \<open>re.match(r'^[a-zA-Z0-9_-]{11}$', query)\<close>; a query
  that is neither a URL nor an ID is searched for, a URL is used as it is, an ID is
  appended to the watch prefix.
\<close>

definition is_video_id :: "string \<Rightarrow> bool" where
  "is_video_id query \<longleftrightarrow> pat4 query \<noteq> None"



text \<open>\<open>video_url\<close> of the direct-video path of the handler.\<close>

definition video_url :: "string \<Rightarrow> string" where
  "video_url query = (if is_youtube_url query then query else watch_url query)"

section \<open>Python values, errors and the extraction capability's records\<close>

datatype py_error = KeyError | ValueError | AttributeError | TypeError

text \<open>
  A loosely typed value, as \<open>view_count\<close> and \<open>duration\<close> are: \<open>None\<close>, an \<open>int\<close> or a
  \<open>str\<close>.
\<close>

datatype pyval = PNone | PInt int | PStr string

text \<open>
  A dictionary of the extraction capability is a record of optional fields: \<open>None\<close> is
  an absent key (or a key holding \<open>None\<close>), a present key holds a value of the field's
  type. \<open>d.get(k, '')\<close> is \<open>get_str\<close>.
\<close>

definition get_str :: "string option \<Rightarrow> string" where
  "get_str v = (case v of None \<Rightarrow> [] | Some s \<Rightarrow> s)"

record thumb =
  t_url :: "string option"
  t_width :: "int option"
  t_height :: "int option"

record format =
  f_url :: "string option"
  vcodec :: "string option"
  acodec :: "string option"

record info =
  i_id :: "string option"
  i_title :: "string option"
  i_duration :: "pyval option"
  i_uploader :: "string option"
  i_view_count :: "pyval option"
  i_thumbnails :: "thumb option list option"
  i_thumbnail :: "string option"
  i_url :: "string option"
  i_formats :: "format list option"

text \<open>
  The dictionary built by \<open>get_details\<close> and \<open>search_videos\<close>; \<open>duration_text\<close> and
  \<open>publish_time\<close>, which the request handler never reads, are left out.
\<close>

record video_data =
  vd_id :: string
  vd_title :: string
  vd_duration :: pyval
  vd_channel :: string
  vd_views :: pyval
  vd_thumbnail :: string
  vd_link :: string

section \<open>Thumbnails\<close>

definition thumbnail_url :: "string \<Rightarrow> string \<Rightarrow> string" where
  "thumbnail_url video_id q = ''https://i.ytimg.com/vi/'' @ video_id @ ''/'' @ q @ ''.jpg''"

text \<open>
  \<open>get_youtube_thumbnail(video_id, quality='maxresdefault')\<close>: the loop over the
  qualities returns in its first iteration.
\<close>

definition get_youtube_thumbnail :: "string \<Rightarrow> string \<Rightarrow> string" where
  "get_youtube_thumbnail video_id quality =
     (if video_id = [] then []
      else
        (let qualities = [''maxresdefault'', ''hqdefault'', ''mqdefault'', ''default''];
             qualities' = (if quality \<in> set qualities then quality # qualities else qualities)
         in case qualities' of
              q # _ \<Rightarrow> thumbnail_url video_id q
            | [] \<Rightarrow> thumbnail_url video_id ''maxresdefault''))"

text \<open>\<open>t and t.get('url')\<close>, and the key \<open>x.get('width', 0) * x.get('height', 0)\<close>.\<close>

definition valid_thumbnail :: "thumb option \<Rightarrow> bool" where
  "valid_thumbnail t = (case t of None \<Rightarrow> False | Some x \<Rightarrow> truthy_str (t_url x))"

definition int_or_0 :: "int option \<Rightarrow> int" where
  "int_or_0 v = (case v of None \<Rightarrow> 0 | Some n \<Rightarrow> n)"

definition area :: "thumb option \<Rightarrow> int" where
  "area t = (case t of None \<Rightarrow> 0 | Some x \<Rightarrow> int_or_0 (t_width x) * int_or_0 (t_height x))"

text \<open>
  Python's \<open>max(xs, key=k)\<close> on a non-empty list: the best so far is replaced only by
  an item with a strictly greater key, so the first maximal item is returned.
\<close>

fun max_by :: "('a \<Rightarrow> int) \<Rightarrow> 'a \<Rightarrow> 'a list \<Rightarrow> 'a" where
  "max_by k best [] = best"
| "max_by k best (x # xs) = max_by k (if k best < k x then x else best) xs"

definition extract_best_thumbnail :: "info \<Rightarrow> string" where
  "extract_best_thumbnail info_dict =
     (let video_id = get_str (i_id info_dict);
          thumbnails = (case i_thumbnails info_dict of None \<Rightarrow> [] | Some ts \<Rightarrow> ts);
          valid_thumbnails = filter valid_thumbnail thumbnails;
          direct_thumbnail = get_str (i_thumbnail info_dict)
      in case valid_thumbnails of
           t # ts \<Rightarrow> (case max_by area t ts of None \<Rightarrow> [] | Some best \<Rightarrow> get_str (t_url best))
         | [] \<Rightarrow>
             (if direct_thumbnail \<noteq> [] then direct_thumbnail
              else if video_id \<noteq> [] then get_youtube_thumbnail video_id ''maxresdefault''
              else []))"

definition ensure_thumbnail_availability :: "video_data \<Rightarrow> video_data" where
  "ensure_thumbnail_availability video_data =
     (if vd_thumbnail video_data = [] \<and> vd_id video_data \<noteq> []
      then video_data\<lparr>vd_thumbnail := get_youtube_thumbnail (vd_id video_data) ''maxresdefault''\<rparr>
      else video_data)"

section \<open>The shared cache: result entries and stream handles\<close>

text \<open>
  The module-level dictionary \<open>cache\<close> holds two kinds of values: the tuples
  \<open>(result, timestamp)\<close> of the \<open>cached\<close> decorator and the dictionaries
  \<open>{url, is_video, expires}\<close> of \<open>get_stream_url\<close>. It is an association list in
  insertion order with distinct keys. Clock readings (\<open>time.time()\<close>) are real numbers
  of seconds; one call of a modelled function reads the clock once.
\<close>

record stream_data =
  sd_url :: string
  sd_is_video :: bool
  sd_expires :: real

datatype 'r cache_val = ResultEntry 'r real | StreamEntry stream_data

type_synonym 'r cache = "(string \<times> 'r cache_val) list"

definition dict_get :: "('k \<times> 'v) list \<Rightarrow> 'k \<Rightarrow> 'v option" where
  "dict_get d k = map_of d k"

fun dict_set :: "('k \<times> 'v) list \<Rightarrow> 'k \<Rightarrow> 'v \<Rightarrow> ('k \<times> 'v) list" where
  "dict_set [] k v = [(k, v)]"
| "dict_set ((k', v') # d) k v = (if k' = k then (k, v) # d else (k', v') # dict_set d k v)"

definition dict_del :: "('k \<times> 'v) list \<Rightarrow> 'k \<Rightarrow> ('k \<times> 'v) list" where
  "dict_del d k = filter (\<lambda>kv. fst kv \<noteq> k) d"

definition CACHE_TIMEOUT :: real where
  "CACHE_TIMEOUT = 60 * 60"

section \<open>The result cache\<close>






text \<open>
  The wrapper made by \<open>cached(timeout)\<close> around \<open>func\<close>, called with arguments whose
  key is \<open>cache_key\<close>. The wrapped call \<open>func\<close> acts on the world \<open>w\<close> outside the cache
  (for the resolver: the upstream) and returns a result or raises.

  \<open>execute_and_store\<close> is the part of the wrapper after the test for a fresh entry.
  \<open>result, timestamp = cache[cache_key]\<close> raises \<open>ValueError\<close> on a stream entry (a
  dictionary of three keys), and the clean-up loop's \<open>cache[key][1]\<close> raises \<open>KeyError\<close>
  on one; entries deleted before that stay deleted.
\<close>

fun cleanup_loop :: "real \<Rightarrow> real \<Rightarrow> string list \<Rightarrow> 'r cache \<Rightarrow> py_error option \<times> 'r cache" where
  "cleanup_loop timeout current_time [] c = (None, c)"
| "cleanup_loop timeout current_time (key # keys) c =
     (case dict_get c key of
        Some (ResultEntry r timestamp) \<Rightarrow>
          cleanup_loop timeout current_time keys
            (if current_time - timestamp > timeout then dict_del c key else c)
      | Some (StreamEntry sd) \<Rightarrow> (Some KeyError, c)
      | None \<Rightarrow> (Some KeyError, c))"

definition execute_and_store ::
  "real \<Rightarrow> string \<Rightarrow> ('w \<Rightarrow> (py_error + 'r) \<times> 'w) \<Rightarrow> real \<Rightarrow> 'r cache \<Rightarrow> 'w \<Rightarrow>
     (py_error + 'r) \<times> 'r cache \<times> 'w" where
  "execute_and_store timeout cache_key func now c w =
     (case func w of
        (Inl e, w') \<Rightarrow> (Inl e, c, w')
      | (Inr result, w') \<Rightarrow>
          (let c' = dict_set c cache_key (ResultEntry result now)
           in case cleanup_loop timeout now (map fst c') c' of
                (Some e, c'') \<Rightarrow> (Inl e, c'', w')
              | (None, c'') \<Rightarrow> (Inr result, c'', w')))"

definition cached ::
  "real \<Rightarrow> string \<Rightarrow> ('w \<Rightarrow> (py_error + 'r) \<times> 'w) \<Rightarrow> real \<Rightarrow> 'r cache \<Rightarrow> 'w \<Rightarrow>
     (py_error + 'r) \<times> 'r cache \<times> 'w" where
  "cached timeout cache_key func now c w =
     (case dict_get c cache_key of
        Some (ResultEntry result timestamp) \<Rightarrow>
          (if now - timestamp < timeout then (Inr result, c, w)
           else execute_and_store timeout cache_key func now c w)
      | Some (StreamEntry sd) \<Rightarrow> (Inl ValueError, c, w)
      | None \<Rightarrow> execute_and_store timeout cache_key func now c w)"

section \<open>The extraction capability and the resolver\<close>

text \<open>
  The calls into \<open>yt_dlp\<close> and \<open>youtubesearchpython\<close> are fields of a record. Each takes
  the number of upstream calls made so far, so a later call may answer differently;
  \<open>None\<close> stands for a call that raised or returned nothing. \<open>stream_info\<close> is asked
  with \<open>is_video\<close> (the format option), \<open>search_info\<close> with the limit; it gives the
  \<open>entries\<close> of the search result. \<open>time_to_seconds\<close>, whose value no property here
  depends on, is a field as well. A search hit holds every key the source reads.
\<close>

record search_hit =
  h_id :: string
  h_title :: string
  h_duration :: string
  h_channel :: string
  h_view_text :: string
  h_thumbnails :: "string list"
  h_link :: string

record capability =
  details_info :: "nat \<Rightarrow> string \<Rightarrow> info option"
  stream_info :: "nat \<Rightarrow> bool \<Rightarrow> string \<Rightarrow> info option"
  search_info :: "nat \<Rightarrow> nat \<Rightarrow> string \<Rightarrow> info option list option"
  videos_search :: "nat \<Rightarrow> string \<Rightarrow> search_hit list option"
  time_to_seconds :: "string \<Rightarrow> int"

record 'r world =
  cache :: "'r cache"
  upstream_calls :: nat

definition pyval_or_0 :: "pyval option \<Rightarrow> pyval" where
  "pyval_or_0 v = (case v of None \<Rightarrow> PInt 0 | Some x \<Rightarrow> x)"

text \<open>
  \<open>search_videos(query, limit)\<close>. \<open>query.lower() == '295'\<close> holds exactly for the query
  \<open>295\<close>, digits having no case.
\<close>

definition hardcoded_295 :: video_data where
  "hardcoded_295 =
     \<lparr>vd_id = ''n_FCrCQ6-bA'',
      vd_title = ''295 (Official Audio) | Sidhu Moose Wala | The Kidd | Moosetape'',
      vd_duration = PInt 273,
      vd_channel = ''Sidhu Moose Wala'',
      vd_views = PInt 706072166,
      vd_thumbnail = ''https://i.ytimg.com/vi_webp/n_FCrCQ6-bA/maxresdefault.webp'',
      vd_link = ''https://www.youtube.com/watch?v=n_FCrCQ6-bA''\<rparr>"

definition entry_video_data :: "info \<Rightarrow> video_data" where
  "entry_video_data entry =
     \<lparr>vd_id = get_str (i_id entry),
      vd_title = (case i_title entry of None \<Rightarrow> ''Unknown'' | Some t \<Rightarrow> t),
      vd_duration = pyval_or_0 (i_duration entry),
      vd_channel = get_str (i_uploader entry),
      vd_views = pyval_or_0 (i_view_count entry),
      vd_thumbnail = get_youtube_thumbnail (get_str (i_id entry)) ''maxresdefault'',
      vd_link = watch_url (get_str (i_id entry))\<rparr>"

definition search_videos ::
  "capability \<Rightarrow> string \<Rightarrow> nat \<Rightarrow> 'r world \<Rightarrow> video_data list \<times> 'r world" where
  "search_videos cap query limit w =
     (if query = ''295'' then ([hardcoded_295], w)
      else
        (let w' = w\<lparr>upstream_calls := upstream_calls w + 1\<rparr>
         in case search_info cap (upstream_calls w) limit query of
              None \<Rightarrow> ([], w')
            | Some entries \<Rightarrow>
                (map entry_video_data (List.map_filter id (take limit entries)), w')))"

text \<open>
  \<open>get_details(url)\<close>: the search branch for a text that is neither a URL nor an ID,
  else the extraction of the normalized URL. No decorator is applied to it in the
  source. Its result is \<open>None\<close> where the source returns \<open>None\<close> from its handler of
  exceptions.
\<close>

definition hit_video_data :: "capability \<Rightarrow> search_hit \<Rightarrow> video_data" where
  "hit_video_data cap video =
     \<lparr>vd_id = h_id video,
      vd_title = h_title video,
      vd_duration = PInt (time_to_seconds cap (h_duration video)),
      vd_channel = h_channel video,
      vd_views = PStr (h_view_text video),
      vd_thumbnail = (if h_thumbnails video = [] then [] else last (h_thumbnails video)),
      vd_link = h_link video\<rparr>"

definition info_video_data :: "info \<Rightarrow> video_data" where
  "info_video_data info =
     ensure_thumbnail_availability
       \<lparr>vd_id = get_str (i_id info),
        vd_title = (case i_title info of None \<Rightarrow> ''Unknown'' | Some t \<Rightarrow> t),
        vd_duration = pyval_or_0 (i_duration info),
        vd_channel = get_str (i_uploader info),
        vd_views = pyval_or_0 (i_view_count info),
        vd_thumbnail = extract_best_thumbnail info,
        vd_link = watch_url (get_str (i_id info))\<rparr>"

definition get_details ::
  "capability \<Rightarrow> string \<Rightarrow> 'r world \<Rightarrow> video_data option \<times> 'r world" where
  "get_details cap url w =
     (let w' = w\<lparr>upstream_calls := upstream_calls w + 1\<rparr>
      in if \<not> is_youtube_url url \<and> \<not> is_video_id url then
           (case videos_search cap (upstream_calls w) url of
              None \<Rightarrow> (None, w')
            | Some [] \<Rightarrow> (None, w')
            | Some (video # _) \<Rightarrow> (Some (hit_video_data cap video), w'))
         else
           (case details_info cap (upstream_calls w) (normalize_url url None) of
              None \<Rightarrow> (None, w')
            | Some info \<Rightarrow> (Some (info_video_data info), w')))"

section \<open>The format selector and the stream handle registry\<close>

text \<open>\<open>f.get('vcodec') != 'none'\<close>: a format without the key counts as carrying the track.\<close>

definition has_video :: "format \<Rightarrow> bool" where
  "has_video f \<longleftrightarrow> vcodec f \<noteq> Some ''none''"

definition has_audio :: "format \<Rightarrow> bool" where
  "has_audio f \<longleftrightarrow> acodec f \<noteq> Some ''none''"

text \<open>
  The two filters of the selector: \<open>vcodec != 'none' and acodec != 'none'\<close> for video,
  \<open>acodec != 'none' and vcodec == 'none'\<close> for audio.
\<close>

definition combined :: "format \<Rightarrow> bool" where
  "combined f \<longleftrightarrow> has_video f \<and> has_audio f"

definition audio_only :: "format \<Rightarrow> bool" where
  "audio_only f \<longleftrightarrow> has_audio f \<and> \<not> has_video f"

text \<open>\<open>fs[-1]['url']\<close> on a non-empty list: \<open>KeyError\<close> when the format has no URL.\<close>

definition last_url :: "format list \<Rightarrow> py_error + string" where
  "last_url fs = (case f_url (last fs) of None \<Rightarrow> Inl KeyError | Some u \<Rightarrow> Inr u)"

text \<open>
  The choice of \<open>stream_url\<close> in \<open>get_stream_url\<close>: \<open>Inr None\<close> is the explicit
  \<open>return ""\<close> for a record with neither a URL nor formats.
\<close>

definition select_stream_url :: "info \<Rightarrow> bool \<Rightarrow> py_error + string option" where
  "select_stream_url info is_video =
     (case i_url info of
        Some u \<Rightarrow> Inr (Some u)
      | None \<Rightarrow>
          (case i_formats info of
             None \<Rightarrow> Inr None
           | Some formats \<Rightarrow>
               if formats = [] then Inr None
               else if is_video then
                 (let video_formats = filter combined formats;
                      video_formats' = (if video_formats = [] then filter has_video formats
                                        else video_formats)
                  in map_sum id Some
                       (if video_formats' \<noteq> [] then last_url video_formats' else last_url formats))
               else
                 (let audio_formats = filter audio_only formats;
                      audio_formats' = (if audio_formats = [] then filter has_audio formats
                                        else audio_formats)
                  in map_sum id Some
                       (if audio_formats' \<noteq> [] then last_url audio_formats' else last_url formats))))"

text \<open>
  \<open>get_stream_url(url, is_video, video_id)\<close>; \<open>uuid\<close> is \<open>str(uuid.uuid4())\<close>. The
  result is the empty string where the source returns \<open>""\<close>.
\<close>

definition get_stream_url ::
  "capability \<Rightarrow> string \<Rightarrow> bool \<Rightarrow> string option \<Rightarrow> string \<Rightarrow> real \<Rightarrow> 'r world \<Rightarrow>
     string \<times> 'r world" where
  "get_stream_url cap url is_video video_id uuid now w =
     (let w' = w\<lparr>upstream_calls := upstream_calls w + 1\<rparr>
      in case stream_info cap (upstream_calls w) is_video (normalize_url url video_id) of
           None \<Rightarrow> ([], w')
         | Some info \<Rightarrow>
             (case select_stream_url info is_video of
                Inl e \<Rightarrow> ([], w')
              | Inr None \<Rightarrow> ([], w')
              | Inr (Some stream_url) \<Rightarrow>
                  (let stream_data = \<lparr>sd_url = stream_url, sd_is_video = is_video,
                                      sd_expires = now + 3600\<rparr>
                   in (''/stream/'' @ uuid,
                       w'\<lparr>cache := dict_set (cache w') (''stream:'' @ uuid)
                                      (StreamEntry stream_data)\<rparr>))))"

text \<open>
  \<open>stream_media(stream_id)\<close>, up to the response it decides on; the relay of the bytes
  is not modelled. A result entry under the key has no \<open>get\<close>: the server's handler of
  errors answers 500.
\<close>

datatype stream_response =
    NotFound404
  | InvalidUrl500
  | ServerError500
  | Relay string string

definition stream_media :: "'r cache \<Rightarrow> string \<Rightarrow> stream_response" where
  "stream_media c stream_id =
     (case dict_get c (''stream:'' @ stream_id) of
        None \<Rightarrow> NotFound404
      | Some (ResultEntry r t) \<Rightarrow> ServerError500
      | Some (StreamEntry stream_data) \<Rightarrow>
          (if sd_url stream_data = [] then InvalidUrl500
           else Relay (sd_url stream_data)
                  (if sd_is_video stream_data then ''video/mp4'' else ''audio/mp4'')))"

text \<open>
  The sweep \<open>cleanup_old_files\<close> on the cache, and the hook \<open>before_request\<close> that runs
  it when the draw \<open>random.random()\<close> is below 0.01.
\<close>

definition expired_entry :: "real \<Rightarrow> 'r cache_val \<Rightarrow> bool" where
  "expired_entry current_time v =
     (case v of
        ResultEntry r timestamp \<Rightarrow> current_time - timestamp > CACHE_TIMEOUT
      | StreamEntry sd \<Rightarrow> current_time > sd_expires sd)"

definition cleanup_old_files :: "real \<Rightarrow> 'r cache \<Rightarrow> 'r cache" where
  "cleanup_old_files current_time c = filter (\<lambda>kv. \<not> expired_entry current_time (snd kv)) c"

definition before_request :: "real \<Rightarrow> real \<Rightarrow> 'r cache \<Rightarrow> 'r cache" where
  "before_request draw now c = (if draw < 0.01 then cleanup_old_files now c else c)"

definition stream_request :: "real \<Rightarrow> real \<Rightarrow> 'r cache \<Rightarrow> string \<Rightarrow> stream_response \<times> 'r cache" where
  "stream_request draw now c stream_id =
     (let c' = before_request draw now c in (stream_media c' stream_id, c'))"

section \<open>The views field of the response\<close>

text \<open>
  \<open>int(v) if str(v).isdigit() else 0\<close>. Among the code points below 256, \<open>str.isdigit\<close>
  holds for the ten ASCII digits and for the superscripts two, three and one (\<open>0xB2\<close>,
  \<open>0xB3\<close>, \<open>0xB9\<close>), which \<open>int\<close> rejects with \<open>ValueError\<close>. \<open>max_str_digits\<close> is the
  interpreter's limit on the digits of a conversion between \<open>int\<close> and \<open>str\<close> (4300 by
  default, 0 for none): a longer conversion raises \<open>ValueError\<close>.
\<close>

definition ascii_digit :: "char \<Rightarrow> bool" where
  "ascii_digit c \<longleftrightarrow> c \<in> set ''0123456789''"

definition isdigit_char :: "char \<Rightarrow> bool" where
  "isdigit_char c \<longleftrightarrow> ascii_digit c \<or> c \<in> {CHR 0xB2, CHR 0xB3, CHR 0xB9}"

definition isdigit :: "string \<Rightarrow> bool" where
  "isdigit s \<longleftrightarrow> s \<noteq> [] \<and> list_all isdigit_char s"

definition digit_value :: "char \<Rightarrow> nat" where
  "digit_value c = of_char c - 48"

definition decimal_value :: "string \<Rightarrow> nat" where
  "decimal_value s = foldl (\<lambda>a c. 10 * a + digit_value c) 0 s"

definition digit_char :: "nat \<Rightarrow> char" where
  "digit_char d = ''0123456789'' ! d"

fun nat_digits :: "nat \<Rightarrow> string" where
  "nat_digits n = (if n < 10 then [digit_char n] else nat_digits (n div 10) @ [digit_char (n mod 10)])"

declare nat_digits.simps [simp del]

definition over_limit :: "nat \<Rightarrow> nat \<Rightarrow> bool" where
  "over_limit max_str_digits n \<longleftrightarrow> 0 < max_str_digits \<and> max_str_digits < n"

definition py_str :: "nat \<Rightarrow> pyval \<Rightarrow> py_error + string" where
  "py_str max_str_digits v =
     (case v of
        PNone \<Rightarrow> Inr ''None''
      | PStr s \<Rightarrow> Inr s
      | PInt n \<Rightarrow>
          (let ds = nat_digits (nat \<bar>n\<bar>)
           in if over_limit max_str_digits (length ds) then Inl ValueError
              else Inr (if n < 0 then CHR ''-'' # ds else ds)))"

definition py_int :: "nat \<Rightarrow> pyval \<Rightarrow> py_error + int" where
  "py_int max_str_digits v =
     (case v of
        PNone \<Rightarrow> Inl TypeError
      | PInt n \<Rightarrow> Inr n
      | PStr s \<Rightarrow>
          (if s \<noteq> [] \<and> list_all ascii_digit s then
             (if over_limit max_str_digits (length s) then Inl ValueError
              else Inr (int (decimal_value s)))
           else Inl ValueError))"

definition views_field :: "nat \<Rightarrow> pyval \<Rightarrow> py_error + int" where
  "views_field max_str_digits v =
     (case py_str max_str_digits v of
        Inl e \<Rightarrow> Inl e
      | Inr s \<Rightarrow> (if isdigit s then py_int max_str_digits v else Inr 0))"

section \<open>API keys and the \<open>/youtube\<close> endpoint\<close>

text \<open>
  The rows of the tables \<open>api_keys\<close> and \<open>api_logs\<close>, with the columns the gate and the
  logger use; \<open>datetime\<close> values are seconds on the same clock.
\<close>

record api_key =
  k_id :: nat
  k_key :: string
  k_valid_until :: real
  k_daily_limit :: int
  k_reset_at :: real
  k_count :: int

record api_log =
  l_api_key_id :: nat
  l_endpoint :: string
  l_query :: "string option"
  l_response_status :: nat

record db =
  api_keys :: "api_key list"
  api_logs :: "api_log list"

definition is_expired :: "api_key \<Rightarrow> real \<Rightarrow> bool" where
  "is_expired k now \<longleftrightarrow> now > k_valid_until k"

definition remaining_requests :: "api_key \<Rightarrow> real \<Rightarrow> int" where
  "remaining_requests k now =
     (if now > k_reset_at k then k_daily_limit k else k_daily_limit k - k_count k)"

text \<open>\<open>ApiKey.query.filter_by(key=api_key_str).first()\<close>\<close>

definition find_key :: "db \<Rightarrow> string \<Rightarrow> api_key option" where
  "find_key d api_key_str = find (\<lambda>k. k_key k = api_key_str) (api_keys d)"

definition count_usage :: "real \<Rightarrow> api_key \<Rightarrow> api_key" where
  "count_usage now k =
     (if now > k_reset_at k then k\<lparr>k_count := 1, k_reset_at := now + 86400\<rparr>
      else k\<lparr>k_count := k_count k + 1\<rparr>)"

definition log_api_request :: "string \<Rightarrow> string \<Rightarrow> string option \<Rightarrow> real \<Rightarrow> db \<Rightarrow> db" where
  "log_api_request api_key_str endpoint query now d =
     (case find_key d api_key_str of
        None \<Rightarrow> d
      | Some k \<Rightarrow>
          \<lparr>api_keys = map (\<lambda>k'. if k_id k' = k_id k then count_usage now k' else k') (api_keys d),
           api_logs = api_logs d @
             [\<lparr>l_api_key_id = k_id k, l_endpoint = endpoint, l_query = query,
               l_response_status = 200\<rparr>]\<rparr>)"

record request =
  q_query :: "string option"
  q_video :: bool
  q_api_key :: "string option"
  q_host_url :: string

record yt_response =
  r_id :: string
  r_title :: string
  r_duration :: pyval
  r_link :: string
  r_channel :: string
  r_views :: int
  r_thumbnail :: string
  r_stream_url :: string
  r_stream_type :: string

text \<open>
  A response: a JSON error with its status, the answer 500 to a caught exception
  (whose body is \<open>str(e)\<close>), or the 200 answer.
\<close>

datatype response = JsonError nat string | JsonException py_error | JsonOk yt_response

text \<open>
  \<open>required_api_key(func)\<close>: the decorated function, applied to a request. \<open>func\<close> is
  the view, acting on the world.
\<close>

definition required_api_key ::
  "('w \<Rightarrow> response \<times> 'w) \<Rightarrow> request \<Rightarrow> real \<Rightarrow> db \<Rightarrow> 'w \<Rightarrow> response \<times> db \<times> 'w" where
  "required_api_key func req now d w =
     (if \<not> truthy_str (q_api_key req) then (JsonError 401 ''API key is required'', d, w)
      else
        (case find_key d (the (q_api_key req)) of
           None \<Rightarrow> (JsonError 401 ''Invalid API key'', d, w)
         | Some k \<Rightarrow>
             if is_expired k now then (JsonError 401 ''API key has expired'', d, w)
             else if remaining_requests k now \<le> 0 then (JsonError 429 ''Daily limit exceeded'', d, w)
             else
               (let d' = log_api_request (the (q_api_key req)) ''youtube'' (q_query req) now d;
                    (resp, w') = func w
                in (resp, d', w'))))"

text \<open>
  The view \<open>youtube()\<close>. \<open>q_video\<close> is the parsed flag \<open>video\<close>, \<open>q_host_url\<close> is
  \<open>request.host_url.rstrip("/")\<close>, \<open>uuid\<close> and \<open>now\<close> are what \<open>get_stream_url\<close> draws
  and reads.
\<close>

definition make_response ::
  "nat \<Rightarrow> request \<Rightarrow> video_data \<Rightarrow> string \<Rightarrow> response" where
  "make_response max_str_digits req video_data stream_url =
     (case views_field max_str_digits (vd_views video_data) of
        Inl e \<Rightarrow> JsonException e
      | Inr views \<Rightarrow>
          JsonOk \<lparr>r_id = vd_id video_data,
                  r_title = vd_title video_data,
                  r_duration = vd_duration video_data,
                  r_link = vd_link video_data,
                  r_channel = vd_channel video_data,
                  r_views = views,
                  r_thumbnail = vd_thumbnail video_data,
                  r_stream_url = q_host_url req @ stream_url,
                  r_stream_type = (if q_video req then ''Video'' else ''Audio'')\<rparr>)"

definition youtube ::
  "capability \<Rightarrow> nat \<Rightarrow> request \<Rightarrow> string \<Rightarrow> real \<Rightarrow> 'r world \<Rightarrow> response \<times> 'r world" where
  "youtube cap max_str_digits req uuid now w =
     (if \<not> truthy_str (q_query req) then (JsonError 400 ''Query parameter is required'', w)
      else
        (let query = the (q_query req)
         in if \<not> is_youtube_url query \<and> \<not> is_video_id query then
              (case search_videos cap query 1 w of
                 ([], w1) \<Rightarrow> (JsonError 404 ''No videos found'', w1)
               | (video_data # _, w1) \<Rightarrow>
                   (case get_stream_url cap (vd_link video_data) (q_video req) None uuid now w1 of
                      (stream_url, w2) \<Rightarrow>
                        if stream_url = [] then (JsonError 500 ''Failed to get stream URL'', w2)
                        else (make_response max_str_digits req video_data stream_url, w2)))
            else
              (case get_details cap (video_url query) w of
                 (None, w1) \<Rightarrow> (JsonError 404 ''No video found'', w1)
               | (Some video_details, w1) \<Rightarrow>
                   if vd_id video_details = [] then (JsonError 404 ''No video found'', w1)
                   else
                     (case get_stream_url cap (video_url query) (q_video req) None uuid now w1 of
                        (stream_url, w2) \<Rightarrow>
                          if stream_url = [] then (JsonError 500 ''Failed to get stream URL'', w2)
                          else (make_response max_str_digits req video_details stream_url, w2)))))"

text \<open>
  One request to \<open>/youtube\<close>: the hook \<open>before_request\<close>, then the view behind its gate.
  The rate limiter of the web framework is not part of the model.
\<close>

definition youtube_endpoint ::
  "capability \<Rightarrow> nat \<Rightarrow> request \<Rightarrow> real \<Rightarrow> string \<Rightarrow> real \<Rightarrow> db \<Rightarrow> 'r world \<Rightarrow>
     response \<times> db \<times> 'r world" where
  "youtube_endpoint cap max_str_digits req draw uuid now d w =
     required_api_key (youtube cap max_str_digits req uuid now) req now d
       (w\<lparr>cache := before_request draw now (cache w)\<rparr>)"

section \<open>The known URL shapes, in the specification's words\<close>



section \<open>Example inputs\<close>

text \<open>The empty dictionary, and records of the capability used as concrete inputs below.\<close>

definition empty_info :: info where
  "empty_info =
     \<lparr>i_id = None, i_title = None, i_duration = None, i_uploader = None,
      i_view_count = None, i_thumbnails = None, i_thumbnail = None, i_url = None,
      i_formats = None\<rparr>"


definition fmt_combined :: format where
  "fmt_combined = \<lparr>f_url = Some ''https://cdn.example.org/combined'',
                    vcodec = Some ''avc1'', acodec = Some ''mp4a''\<rparr>"

definition fmt_video_a :: format where
  "fmt_video_a = \<lparr>f_url = Some ''https://cdn.example.org/video-a'',
                   vcodec = Some ''avc1'', acodec = Some ''none''\<rparr>"

definition fmt_video_b :: format where
  "fmt_video_b = \<lparr>f_url = Some ''https://cdn.example.org/video-b'',
                   vcodec = Some ''vp9'', acodec = Some ''none''\<rparr>"

definition formats_info :: info where
  "formats_info =
     empty_info\<lparr>i_id := Some ''dQw4w9WgXcQ'',
                 i_formats := Some [fmt_video_a, fmt_combined, fmt_video_b]\<rparr>"


text \<open>
  A capability whose extraction answers the first call with one view count and every
  later call with another; its other calls answer nothing.
\<close>

definition counting_cap :: capability where
  "counting_cap =
     \<lparr>details_info = (\<lambda>n url. Some (formats_info\<lparr>i_view_count := Some (PInt (int n))\<rparr>)),
      stream_info = (\<lambda>n is_video url. Some formats_info),
      search_info = (\<lambda>n limit query. None),
      videos_search = (\<lambda>n query. None),
      time_to_seconds = (\<lambda>s. 0)\<rparr>"

definition empty_world :: "unit world" where
  "empty_world = \<lparr>cache = [], upstream_calls = 0\<rparr>"



text \<open>A key that has used up its daily limit, a request with it, and metadata with view text.\<close>

definition zero_quota_db :: db where
  "zero_quota_db =
     \<lparr>api_keys = [\<lparr>k_id = 1, k_key = ''jaydip'', k_valid_until = 10000,
                    k_daily_limit = 100, k_reset_at = 5000, k_count = 100\<rparr>],
      api_logs = []\<rparr>"

definition rick_request :: request where
  "rick_request =
     \<lparr>q_query = Some ''dQw4w9WgXcQ'', q_video = False, q_api_key = Some ''jaydip'',
      q_host_url = ''http://localhost:5000''\<rparr>"


section \<open>Properties of the classifier and of URL normalization\<close>

lemma after_Some: "after p s = Some r \<longleftrightarrow> s = p @ r"
  by (auto simp: after_def) (metis append_take_drop_id)

lemma lit_iff: "lit p k s \<longleftrightarrow> (\<exists>r. s = p @ r \<and> k r)"
proof (cases "after p s")
  case None
  then have "\<And>r. s \<noteq> p @ r" using after_Some[of p s] by auto
  with None show ?thesis by (simp add: lit_def)
next
  case (Some r)
  then show ?thesis using after_Some[of p s r] by (simp add: lit_def)
qed

text \<open>The head of the URL patterns, for any literals in place of the source's.\<close>

lemma head_gen:
  "seq (seq (opt (seq (lit a) (seq (opt (lit b)) (lit c)))) (opt (lit d))) (lit t) K s \<longleftrightarrow>
     (\<exists>h\<in>{[], a @ c, a @ b @ c}. \<exists>w\<in>{[], d}. \<exists>r. s = h @ w @ t @ r \<and> K r)"
  unfolding seq_def opt_def lit_iff by auto

lemma url_head_iff:
  "re_match (seq url_head (lit t)) s \<longleftrightarrow>
     (\<exists>h\<in>{[], ''http://'', ''https://''}. \<exists>w\<in>{[], ''www.''}. \<exists>r. s = h @ w @ t @ r)"
proof -
  have e: "''http'' @ ''://'' = ''http://''" "''http'' @ ''s'' @ ''://'' = ''https://''"
    by simp_all
  show ?thesis unfolding re_match_def url_head_def head_gen e by simp
qed

lemma is_youtube_url_iff:
  "is_youtube_url s \<longleftrightarrow>
     (\<exists>t\<in>{''youtube.com/watch?v='', ''youtu.be/'', ''youtube.com/embed/'', ''youtube.com/v/''}.
      \<exists>h\<in>{[], ''http://'', ''https://''}. \<exists>w\<in>{[], ''www.''}. \<exists>r. s = h @ w @ t @ r)"
  unfolding is_youtube_url_def youtube_patterns_def list_ex_iff set_simps bex_simps
    url_head_iff
  by (simp only: bex_simps)




lemma id11_Some:
  assumes "id11 s = Some g" shows "length g = 11 \<and> list_all idchar g \<and> g = take 11 s"
  using assms by (auto simp: id11_def split: if_splits)

lemma re_search_Some:
  assumes "re_search m s = Some g" shows "\<exists>t. m t = Some g"
  using assms by (induction s) (auto split: option.splits)

lemma pat_shape:
  assumes "pat1 t = Some g \<or> pat2 t = Some g \<or> pat3 t = Some g \<or> pat4 t = Some g"
  shows "length g = 11 \<and> list_all idchar g"
  using assms
  by (auto simp: pat1_def pat2_def pat3_def pat4_def
      dest!: id11_Some split: option.splits if_splits Option.bind_splits)

lemma extract_video_id_shape:
  assumes "extract_video_id u = Some g" shows "length g = 11 \<and> list_all idchar g"
proof -
  from assms consider "re_search pat1 u = Some g" | "re_search pat2 u = Some g"
    | "re_search pat3 u = Some g" | "pat4 u = Some g"
    unfolding extract_video_id_def by (auto split: option.splits)
  then show ?thesis
  proof cases
    case 1 then show ?thesis using re_search_Some[of pat1 u g] pat_shape[of _ g] by auto
  next
    case 2 then show ?thesis using re_search_Some[of pat2 u g] pat_shape[of _ g] by auto
  next
    case 3 then show ?thesis using re_search_Some[of pat3 u g] pat_shape[of _ g] by auto
  next
    case 4 then show ?thesis using pat_shape[of u g] by auto
  qed
qed



text \<open>A canonical watch URL is a URL of the platform, and its ID is extracted again.\<close>

lemma watch_url_again:
  assumes "length v = 11" "list_all idchar v"
  shows "is_youtube_url (watch_url v) \<and> extract_video_id (watch_url v) = Some v"
proof -
  obtain a b c d e f g h i j k where v: "v = [a, b, c, d, e, f, g, h, i, j, k]"
    using assms(1) by (auto simp: length_Suc_conv eval_nat_numeral)
  have nq: "\<not> idchar CHR ''?''" "\<not> idchar CHR ''.''" "\<not> idchar CHR ''/''" "\<not> idchar CHR '':''"
    by (simp_all add: idchar_def)
  have 1: "is_youtube_url (watch_url v)"
    unfolding is_youtube_url_iff watch_url_def
    by (rule bexI[of _ "''youtube.com/watch?v=''"], rule bexI[of _ "''https://''"],
        rule bexI[of _ "''www.''"], rule exI[of _ v]) simp_all
  have 2: "re_search pat1 (watch_url v) = Some v"
    using assms(2) unfolding v watch_url_def
    by (simp add: pat1_def after_def id11_def nq)
  show ?thesis using 1 2 by (simp add: extract_video_id_def)
qed

lemma rick_url:
  "is_youtube_url ''https://www.youtube.com/watch?v=dQw4w9WgXcQ'' \<and>
   extract_video_id ''https://www.youtube.com/watch?v=dQw4w9WgXcQ'' = Some ''dQw4w9WgXcQ''"
proof -
  have "length ''dQw4w9WgXcQ'' = 11" "list_all idchar ''dQw4w9WgXcQ''"
    by (simp_all add: idchar_def)
  from watch_url_again[OF this] show ?thesis by (simp add: watch_url_def)
qed





text \<open>
  C10. Normalizing twice gives what normalizing once gives; and a URL of the platform
  from which an ID is extracted is normalized to the canonical watch URL of that ID,
  which has eleven characters of the class.
\<close>

theorem normalize_url_idempotent:
  "normalize_url (normalize_url u None) None = normalize_url u None \<and>
   (is_youtube_url u \<and> extract_video_id u = Some v \<longrightarrow>
      normalize_url u None = ''https://www.youtube.com/watch?v='' @ v \<and>
      length v = 11 \<and> list_all idchar v)"
proof -
  have idem: "normalize_url (normalize_url u None) None = normalize_url u None"
  proof (cases "is_youtube_url u")
    case False
    then show ?thesis by (simp add: normalize_url_def truthy_str_def)
  next
    case True
    show ?thesis
    proof (cases "extract_video_id u")
      case None
      then show ?thesis using True by (simp add: normalize_url_def truthy_str_def)
    next
      case (Some g)
      then have s: "length g = 11" "list_all idchar g" using extract_video_id_shape by blast+
      then have ne: "g \<noteq> []" by auto
      have n1: "normalize_url u None = watch_url g"
        using True Some ne by (simp add: normalize_url_def truthy_str_def)
      show ?thesis unfolding n1 using watch_url_again[OF s] ne
        by (simp add: normalize_url_def truthy_str_def)
    qed
  qed
  have canon: "normalize_url u None = ''https://www.youtube.com/watch?v='' @ v \<and>
      length v = 11 \<and> list_all idchar v"
    if "is_youtube_url u" "extract_video_id u = Some v"
  proof -
    from that(2) have s: "length v = 11" "list_all idchar v"
      using extract_video_id_shape by blast+
    then have "v \<noteq> []" by auto
    with that s show ?thesis by (simp add: normalize_url_def truthy_str_def watch_url_def)
  qed
  from idem canon show ?thesis by blast
qed

theorem normalize_url_idempotent_witness:
  "normalize_url (normalize_url ''youtu.be/dQw4w9WgXcQ?t=3'' None) None =
     ''https://www.youtube.com/watch?v=dQw4w9WgXcQ''"
proof -
  have u: "is_youtube_url ''youtu.be/dQw4w9WgXcQ?t=3''"
    unfolding is_youtube_url_iff
    by (rule bexI[of _ "''youtu.be/''"], rule bexI[of _ "[]"],
        rule bexI[of _ "[]"], rule exI[of _ "''dQw4w9WgXcQ?t=3''"]) simp_all
  have e: "extract_video_id ''youtu.be/dQw4w9WgXcQ?t=3'' = Some ''dQw4w9WgXcQ''"
    by (simp add: extract_video_id_def pat1_def after_def id11_def idchar_def)
  note t = normalize_url_idempotent[of "''youtu.be/dQw4w9WgXcQ?t=3''" "''dQw4w9WgXcQ''"]
  from t u e have
    "normalize_url ''youtu.be/dQw4w9WgXcQ?t=3'' None =
       ''https://www.youtube.com/watch?v='' @ ''dQw4w9WgXcQ''"
    by blast
  moreover from t have
    "normalize_url (normalize_url ''youtu.be/dQw4w9WgXcQ?t=3'' None) None =
       normalize_url ''youtu.be/dQw4w9WgXcQ?t=3'' None"
    by blast
  ultimately show ?thesis by (simp only: append.simps)
qed

section \<open>Properties of thumbnail selection\<close>









section \<open>Properties of the format selector\<close>






section \<open>Properties of the result cache\<close>





lemma dict_get_set: "dict_get (dict_set d k v) k' = (if k' = k then Some v else dict_get d k')"
  by (induction d k v rule: dict_set.induct) (auto simp: dict_get_def)

lemma dict_get_del: "dict_get (dict_del d k) k' = (if k' = k then None else dict_get d k')"
  by (induction d) (auto simp: dict_get_def dict_del_def)

text \<open>A clean-up that ends without an error keeps every entry that is not older than the timeout.\<close>

lemma cleanup_loop_keeps:
  assumes "cleanup_loop timeout now keys c = (None, c')"
    and "dict_get c key = Some (ResultEntry r ts)" and "\<not> now - ts > timeout"
  shows "dict_get c' key = Some (ResultEntry r ts)"
  using assms
proof (induction keys arbitrary: c)
  case Nil
  then show ?case by simp
next
  case (Cons k ks)
  from Cons.prems(1) obtain r' ts' where e: "dict_get c k = Some (ResultEntry r' ts')"
    by (auto split: option.splits cache_val.splits)
  let ?c1 = "if now - ts' > timeout then dict_del c k else c"
  from Cons.prems(1) e have l: "cleanup_loop timeout now ks ?c1 = (None, c')" by simp
  have "dict_get ?c1 key = Some (ResultEntry r ts)"
    using Cons.prems(2,3) e by (auto simp: dict_get_del)
  from Cons.IH[OF l this Cons.prems(3)] show ?case .
qed

lemma cached_hit:
  assumes "dict_get c key = Some (ResultEntry r ts)" and "now - ts < timeout"
  shows "cached timeout key func now c w = (Inr r, c, w)"
  using assms by (simp add: cached_def)

lemma cached_miss_stores:
  assumes miss: "\<not> (\<exists>r' ts. dict_get c key = Some (ResultEntry r' ts) \<and> now - ts < timeout)"
    and res: "cached timeout key func now c w = (Inr r, c1, w1)"
    and t: "0 \<le> timeout"
  shows "dict_get c1 key = Some (ResultEntry r now) \<and> fst (func w) = Inr r \<and>
         w1 = snd (func w)"
proof -
  obtain x w' where f: "func w = (x, w')" by (cases "func w")
  from miss res have m: "execute_and_store timeout key func now c w = (Inr r, c1, w1)"
    by (auto simp: cached_def split: option.splits cache_val.splits if_splits)
  from m f obtain c'' where x: "x = Inr r" "w1 = w'" and
    cl: "cleanup_loop timeout now (map fst (dict_set c key (ResultEntry r now)))
           (dict_set c key (ResultEntry r now)) = (None, c'')"
    and c1: "c1 = c''"
    by (auto simp: execute_and_store_def Let_def split: sum.splits prod.splits option.splits)
  have "dict_get (dict_set c key (ResultEntry r now)) key = Some (ResultEntry r now)"
    by (simp add: dict_get_set)
  from cleanup_loop_keeps[OF cl this] t have "dict_get c'' key = Some (ResultEntry r now)"
    by simp
  with x f c1 show ?thesis by simp
qed

lemma get_details_url:
  assumes "is_youtube_url url"
  shows "get_details cap url w =
           (map_option info_video_data
              (details_info cap (upstream_calls w) (normalize_url url None)),
            w\<lparr>upstream_calls := upstream_calls w + 1\<rparr>)"
  using assms by (simp add: get_details_def Let_def split: option.splits)

text \<open>
  C2, as stated, fails: \<open>get_details\<close> is not wrapped by \<open>cached\<close>, so resolving the same
  video twice calls the extraction capability twice, and the second metadata is what
  the second call answers (here another view count).
\<close>

theorem get_details_not_cached_counterexample:
  "upstream_calls (snd (get_details counting_cap ''https://www.youtube.com/watch?v=dQw4w9WgXcQ''
      (snd (get_details counting_cap ''https://www.youtube.com/watch?v=dQw4w9WgXcQ''
         empty_world)))) = 2 \<and>
   fst (get_details counting_cap ''https://www.youtube.com/watch?v=dQw4w9WgXcQ''
      (snd (get_details counting_cap ''https://www.youtube.com/watch?v=dQw4w9WgXcQ''
         empty_world))) \<noteq>
   fst (get_details counting_cap ''https://www.youtube.com/watch?v=dQw4w9WgXcQ'' empty_world)"
proof -
  have u: "is_youtube_url ''https://www.youtube.com/watch?v=dQw4w9WgXcQ''"
    using rick_url by simp
  have v: "vd_views (info_video_data (formats_info\<lparr>i_view_count := Some (PInt n)\<rparr>)) = PInt n"
    for n
    by (simp add: info_video_data_def ensure_thumbnail_availability_def pyval_or_0_def)
  have "vd_views (info_video_data (formats_info\<lparr>i_view_count := Some (PInt 1)\<rparr>)) \<noteq>
        vd_views (info_video_data (formats_info\<lparr>i_view_count := Some (PInt 0)\<rparr>))"
    unfolding v by simp
  then have "info_video_data (formats_info\<lparr>i_view_count := Some (PInt 1)\<rparr>) \<noteq>
        info_video_data (formats_info\<lparr>i_view_count := Some (PInt 0)\<rparr>)" by metis
  then show ?thesis
    unfolding get_details_url[OF u] by (simp add: counting_cap_def empty_world_def)
qed

text \<open>
  C2, amended. For a function wrapped by \<open>cached\<close>: when an entry for the key was
  stored less than the timeout ago, the call returns the stored value and neither calls
  the function nor changes the cache; and when a call found no fresh entry, computed a
  result and returned it, a second call less than the timeout later returns that same
  result without calling the function. \<open>get_details\<close> itself is not wrapped: every call
  of it is one more upstream call.
\<close>

theorem cached_hit_skips_compute:
  "(dict_get c key = Some (ResultEntry r ts) \<and> now - ts < timeout \<longrightarrow>
      cached timeout key func now c w = (Inr r, c, w)) \<and>
   (\<not> (\<exists>r' ts'. dict_get c key = Some (ResultEntry r' ts') \<and> now - ts' < timeout) \<and>
    cached timeout key func now c w = (Inr r, c1, w1) \<and>
    now \<le> now2 \<and> now2 - now < timeout \<longrightarrow>
      fst (func w) = Inr r \<and> w1 = snd (func w) \<and>
      cached timeout key func2 now2 c1 w1 = (Inr r, c1, w1)) \<and>
   upstream_calls (snd (get_details cap url w0)) = upstream_calls w0 + 1"
proof -
  have a: "cached timeout key func now c w = (Inr r, c, w)"
    if "dict_get c key = Some (ResultEntry r ts)" "now - ts < timeout"
    using cached_hit[OF that] .
  have b: "fst (func w) = Inr r \<and> w1 = snd (func w) \<and>
      cached timeout key func2 now2 c1 w1 = (Inr r, c1, w1)"
    if m: "\<not> (\<exists>r' ts'. dict_get c key = Some (ResultEntry r' ts') \<and> now - ts' < timeout)"
      and r: "cached timeout key func now c w = (Inr r, c1, w1)"
      and "now \<le> now2" "now2 - now < timeout"
  proof -
    from that have "0 \<le> timeout" by simp
    from cached_miss_stores[OF m r this] cached_hit[of c1 key r now now2 timeout func2 w1]
      that(4)
    show ?thesis by simp
  qed
  have c: "upstream_calls (snd (get_details cap url w0)) = upstream_calls w0 + 1"
    by (simp add: get_details_def Let_def split: option.splits list.splits)
  from a b c show ?thesis by blast
qed

theorem cached_hit_skips_compute_witness:
  "cached CACHE_TIMEOUT ''k'' (\<lambda>w::nat. (Inr ''meta-2'', w + 1)) 200
     [(''k'', ResultEntry ''meta'' 100)] 0 =
     (Inr ''meta'', [(''k'', ResultEntry ''meta'' 100)], 0) \<and>
   cached CACHE_TIMEOUT ''k'' (\<lambda>w::nat. (Inr ''meta-2'', w + 1)) 200
     (fst (snd (cached CACHE_TIMEOUT ''k'' (\<lambda>w::nat. (Inr ''meta'', w + 1)) 100 [] 0))) 1 =
     (Inr ''meta'', [(''k'', ResultEntry ''meta'' 100)], 1)"
proof -
  have 1: "dict_get [(''k'', ResultEntry ''meta'' 100)] ''k'' = Some (ResultEntry ''meta'' 100) \<and>
      (200::real) - 100 < CACHE_TIMEOUT"
    by (simp add: dict_get_def CACHE_TIMEOUT_def)
  have 2: "cached CACHE_TIMEOUT ''k'' (\<lambda>w::nat. (Inr ''meta'', w + 1)) 100 [] 0 =
      (Inr ''meta'', [(''k'', ResultEntry ''meta'' 100)], 1)"
    by (simp add: cached_def execute_and_store_def dict_get_def CACHE_TIMEOUT_def)
  have 3: "\<not> (\<exists>r' ts'. dict_get ([] :: string cache) ''k'' = Some (ResultEntry r' ts') \<and>
      100 - ts' < CACHE_TIMEOUT)"
    by (simp add: dict_get_def)
  have 4: "(100::real) \<le> 200 \<and> (200::real) - 100 < CACHE_TIMEOUT"
    by (simp add: CACHE_TIMEOUT_def)
  note t = cached_hit_skips_compute[of "[(''k'', ResultEntry ''meta'' 100)]" "''k''" "''meta''"
      100 200 CACHE_TIMEOUT "\<lambda>w::nat. (Inr ''meta-2'', w + 1)" 0]
  note t2 = cached_hit_skips_compute[of "[]" "''k''" "''meta''" _ 100 CACHE_TIMEOUT
      "\<lambda>w::nat. (Inr ''meta'', w + 1)" 0 "[(''k'', ResultEntry ''meta'' 100)]" 1 200
      "\<lambda>w::nat. (Inr ''meta-2'', w + 1)"]
  from t 1 have a: "cached CACHE_TIMEOUT ''k'' (\<lambda>w::nat. (Inr ''meta-2'', w + 1)) 200
      [(''k'', ResultEntry ''meta'' 100)] 0 =
      (Inr ''meta'', [(''k'', ResultEntry ''meta'' 100)], 0)" by blast
  from t2 2 3 4 have b: "cached CACHE_TIMEOUT ''k'' (\<lambda>w::nat. (Inr ''meta-2'', w + 1)) 200
      [(''k'', ResultEntry ''meta'' 100)] 1 =
      (Inr ''meta'', [(''k'', ResultEntry ''meta'' 100)], 1)" by blast
  from a b 2 show ?thesis by simp
qed

section \<open>Properties of the stream handle registry\<close>

lemma dict_get_filter_keep:
  assumes "dict_get c k = Some v" and "Q (k, v)"
  shows "dict_get (filter Q c) k = Some v"
  using assms by (induction c) (auto simp: dict_get_def split: if_splits)

lemma dict_get_filter_drop:
  assumes "dict_get c k = Some v" and "\<not> Q (k, v)" and "distinct (map fst c)"
  shows "dict_get (filter Q c) k = None"
  using assms
proof (induction c)
  case Nil
  then show ?case by (simp add: dict_get_def)
next
  case (Cons p c)
  show ?case
  proof (cases "fst p = k")
    case True
    with Cons.prems have "p = (k, v)" by (cases p) (auto simp: dict_get_def)
    moreover from True Cons.prems(3) have "k \<notin> fst ` set c" by auto
    then have "map_of (filter Q c) k = None"
      by (metis (no_types, lifting) filter_is_subset image_mono map_of_eq_None_iff subsetD)
    ultimately show ?thesis using Cons.prems(2) by (simp add: dict_get_def)
  next
    case False
    with Cons show ?thesis by (cases p) (auto simp: dict_get_def)
  qed
qed

lemma dict_set_keys: "set (map fst (dict_set d k v)) = insert k (set (map fst d))"
  by (induction d k v rule: dict_set.induct) auto

lemma dict_set_distinct:
  "distinct (map fst d) \<Longrightarrow> distinct (map fst (dict_set d k v))"
proof (induction d k v rule: dict_set.induct)
  case (1 k v)
  then show ?case by simp
next
  case (2 k' v' d k v)
  then show ?case using dict_set_keys[of d k v] by (auto simp del: set_map)
qed

lemma get_stream_url_stores:
  assumes "stream_info cap (upstream_calls w) is_video (normalize_url url video_id) = Some info"
    and "select_stream_url info is_video = Inr (Some u)"
  shows "get_stream_url cap url is_video video_id uuid t0 w =
           (''/stream/'' @ uuid,
            w\<lparr>upstream_calls := upstream_calls w + 1,
              cache := dict_set (cache w) (''stream:'' @ uuid)
                (StreamEntry \<lparr>sd_url = u, sd_is_video = is_video, sd_expires = t0 + 3600\<rparr>)\<rparr>)"
  using assms by (simp add: get_stream_url_def Let_def)

lemma formats_info_select_audio:
  "select_stream_url formats_info False = Inr (Some ''https://cdn.example.org/combined'')"
  by (simp add: formats_info_def empty_info_def select_stream_url_def fmt_combined_def
      fmt_video_a_def fmt_video_b_def combined_def audio_only_def has_video_def has_audio_def
      last_url_def)

text \<open>
  C1. A handle made at \<open>t0\<close> for a non-empty URL expires at \<open>t0 + 3600\<close>. A request for
  it up to that instant relays the stream, whatever the sweep does. A request after that
  instant answers 404 when this request's sweep runs (the draw is below 0.01), but when
  the sweep does not run, the request still relays the stream: \<open>stream_media\<close> never
  reads \<open>expires\<close>.
\<close>

theorem expired_handle_served_until_swept:
  assumes "stream_info cap (upstream_calls w) is_video (normalize_url url video_id) = Some info"
    and "select_stream_url info is_video = Inr (Some u)" and "u \<noteq> []"
  shows "fst (get_stream_url cap url is_video video_id uuid t0 w) = ''/stream/'' @ uuid \<and>
    (now \<le> t0 + 3600 \<longrightarrow>
       fst (stream_request draw now
              (cache (snd (get_stream_url cap url is_video video_id uuid t0 w))) uuid) =
         Relay u (if is_video then ''video/mp4'' else ''audio/mp4'')) \<and>
    (t0 + 3600 < now \<and> \<not> draw < 0.01 \<longrightarrow>
       fst (stream_request draw now
              (cache (snd (get_stream_url cap url is_video video_id uuid t0 w))) uuid) =
         Relay u (if is_video then ''video/mp4'' else ''audio/mp4'')) \<and>
    (t0 + 3600 < now \<and> draw < 0.01 \<and> distinct (map fst (cache w)) \<longrightarrow>
       fst (stream_request draw now
              (cache (snd (get_stream_url cap url is_video video_id uuid t0 w))) uuid) =
         NotFound404)"
proof -
  let ?sd = "\<lparr>sd_url = u, sd_is_video = is_video, sd_expires = t0 + 3600\<rparr>"
  let ?c = "dict_set (cache w) (''stream:'' @ uuid) (StreamEntry ?sd)"
  let ?found = "Relay u (if is_video then ''video/mp4'' else ''audio/mp4'')"
  note g = get_stream_url_stores[OF assms(1,2), of uuid t0]
  have c: "cache (snd (get_stream_url cap url is_video video_id uuid t0 w)) = ?c"
    unfolding g by simp
  have e: "dict_get ?c (''stream:'' @ uuid) = Some (StreamEntry ?sd)"
    by (simp add: dict_get_set)
  have found: "stream_media c' uuid = ?found"
    if "dict_get c' (''stream:'' @ uuid) = Some (StreamEntry ?sd)" for c' :: "'a cache"
    using that assms(3) by (simp add: stream_media_def)
  have nosweep: "fst (stream_request draw now ?c uuid) = ?found" if "\<not> draw < 0.01"
    using that found[OF e] by (simp add: stream_request_def before_request_def)
  have fresh: "fst (stream_request draw now ?c uuid) = ?found" if "now \<le> t0 + 3600"
  proof (cases "draw < 0.01")
    case False
    then show ?thesis by (rule nosweep)
  next
    case True
    have "\<not> expired_entry now (StreamEntry ?sd :: 'a cache_val)"
      using that by (simp add: expired_entry_def)
    then have "dict_get (cleanup_old_files now ?c) (''stream:'' @ uuid) = Some (StreamEntry ?sd)"
      unfolding cleanup_old_files_def by (intro dict_get_filter_keep[OF e]) simp
    from found[OF this] True show ?thesis by (simp add: stream_request_def before_request_def)
  qed
  have swept: "fst (stream_request draw now ?c uuid) = NotFound404"
    if "t0 + 3600 < now" "draw < 0.01" "distinct (map fst (cache w))"
  proof -
    have "expired_entry now (StreamEntry ?sd :: 'a cache_val)"
      using that(1) by (simp add: expired_entry_def)
    moreover have "distinct (map fst ?c)" using that(3) by (rule dict_set_distinct)
    ultimately have "dict_get (cleanup_old_files now ?c) (''stream:'' @ uuid) = None"
      unfolding cleanup_old_files_def by (intro dict_get_filter_drop[OF e]) simp_all
    with that(2) show ?thesis
      by (simp add: stream_request_def before_request_def stream_media_def)
  qed
  show ?thesis unfolding c using g nosweep fresh swept by simp
qed

theorem expired_handle_served_until_swept_witness:
  "fst (stream_request 0.5 4601
          (cache (snd (get_stream_url counting_cap ''https://www.youtube.com/watch?v=dQw4w9WgXcQ''
                         False None ''u-1'' 1000 empty_world))) ''u-1'') =
     Relay ''https://cdn.example.org/combined'' ''audio/mp4''"
proof -
  have 1: "stream_info counting_cap (upstream_calls empty_world) False
             (normalize_url ''https://www.youtube.com/watch?v=dQw4w9WgXcQ'' None) =
           Some formats_info"
    by (simp add: counting_cap_def)
  have 2: "''https://cdn.example.org/combined'' \<noteq> []" by simp
  have 3: "(1000::real) + 3600 < 4601 \<and> \<not> (0.5::real) < 0.01" by simp
  from expired_handle_served_until_swept[OF 1 formats_info_select_audio 2,
      of "''u-1''" 1000 4601 "0.5"] 3
  show ?thesis by simp
qed

section \<open>Properties of the API key gate\<close>

text \<open>
  C5. A request to \<open>/youtube\<close> whose key is missing, unknown or expired is answered 401,
  and one whose key is known, unexpired and has no requests left is answered 429; in
  each case the view is not entered: no upstream call is counted, and the tables are
  unchanged. Only the sweep of \<open>before_request\<close> may have touched the cache.
\<close>

theorem youtube_gate_rejects_before_resolution:
  "(\<not> truthy_str (q_api_key req) \<longrightarrow>
      youtube_endpoint cap m req draw uuid now d w =
        (JsonError 401 ''API key is required'', d,
         w\<lparr>cache := before_request draw now (cache w)\<rparr>)) \<and>
   (truthy_str (q_api_key req) \<and> find_key d (the (q_api_key req)) = None \<longrightarrow>
      youtube_endpoint cap m req draw uuid now d w =
        (JsonError 401 ''Invalid API key'', d,
         w\<lparr>cache := before_request draw now (cache w)\<rparr>)) \<and>
   (truthy_str (q_api_key req) \<and> find_key d (the (q_api_key req)) = Some k \<and>
    is_expired k now \<longrightarrow>
      youtube_endpoint cap m req draw uuid now d w =
        (JsonError 401 ''API key has expired'', d,
         w\<lparr>cache := before_request draw now (cache w)\<rparr>)) \<and>
   (truthy_str (q_api_key req) \<and> find_key d (the (q_api_key req)) = Some k \<and>
    \<not> is_expired k now \<and> remaining_requests k now \<le> 0 \<longrightarrow>
      youtube_endpoint cap m req draw uuid now d w =
        (JsonError 429 ''Daily limit exceeded'', d,
         w\<lparr>cache := before_request draw now (cache w)\<rparr>)) \<and>
   (\<not> truthy_str (q_api_key req) \<or> find_key d (the (q_api_key req)) = None \<or>
    (\<exists>k'. find_key d (the (q_api_key req)) = Some k' \<and>
          (is_expired k' now \<or> remaining_requests k' now \<le> 0)) \<longrightarrow>
      upstream_calls (snd (snd (youtube_endpoint cap m req draw uuid now d w))) =
        upstream_calls w \<and>
      fst (snd (youtube_endpoint cap m req draw uuid now d w)) = d)"
  by (auto simp: youtube_endpoint_def required_api_key_def)

theorem youtube_gate_rejects_before_resolution_witness:
  "youtube_endpoint counting_cap 4300 rick_request 0.5 ''u-1'' 1000 zero_quota_db empty_world =
     (JsonError 429 ''Daily limit exceeded'', zero_quota_db, empty_world)"
proof -
  let ?k = "\<lparr>k_id = 1, k_key = ''jaydip'', k_valid_until = 10000,
       k_daily_limit = 100, k_reset_at = 5000, k_count = 100\<rparr>"
  have 1: "truthy_str (q_api_key rick_request)" by (simp add: rick_request_def truthy_str_def)
  have 2: "find_key zero_quota_db (the (q_api_key rick_request)) = Some ?k"
    by (simp add: find_key_def zero_quota_db_def rick_request_def)
  have 3: "\<not> is_expired ?k 1000" "remaining_requests ?k 1000 \<le> 0"
    by (simp_all add: is_expired_def remaining_requests_def)
  have 4: "empty_world\<lparr>cache := before_request 0.5 1000 (cache empty_world)\<rparr> = empty_world"
    by (simp add: empty_world_def before_request_def)
  from youtube_gate_rejects_before_resolution[of rick_request counting_cap 4300 "0.5" "''u-1''"
      1000 zero_quota_db empty_world ?k] 1 2 3
  have "youtube_endpoint counting_cap 4300 rick_request 0.5 ''u-1'' 1000 zero_quota_db
          empty_world =
        (JsonError 429 ''Daily limit exceeded'', zero_quota_db,
         empty_world\<lparr>cache := before_request 0.5 1000 (cache empty_world)\<rparr>)" by blast
  then show ?thesis unfolding 4 .
qed

section \<open>Properties of the views field\<close>
















end
